theory Spec2Isabelle
  imports Complex_Main "HOL-Library.Sublist"
begin

section \<open>JavaScript strings\<close>

text \<open>
  A JavaScript string is modelled as a \<^typ>\<open>string\<close>: a list of code units below 256
  (ASCII and Latin-1). Code units from 256 on are outside the model.
\<close>

definition toLowerChar :: "char \<Rightarrow> char" where
  \<comment> \<open>\<^verbatim>\<open>toLowerCase\<close> on one code unit: A-Z, and the Latin-1 capitals 0xC0-0xDE without 0xD7.\<close>
  "toLowerChar c =
     (let n = (of_char c :: nat)
      in if (65 \<le> n \<and> n \<le> 90) \<or> (192 \<le> n \<and> n \<le> 222 \<and> n \<noteq> 215)
         then char_of (n + 32) else c)"

definition toLowerCase :: "string \<Rightarrow> string" where
  "toLowerCase text = map toLowerChar text"

definition isWordChar :: "char \<Rightarrow> bool" where
  \<comment> \<open>the regular-expression class \<^verbatim>\<open>\w\<close>: A-Z, a-z, 0-9 and the underscore\<close>
  "isWordChar c =
     (let n = (of_char c :: nat)
      in (65 \<le> n \<and> n \<le> 90) \<or> (97 \<le> n \<and> n \<le> 122) \<or> (48 \<le> n \<and> n \<le> 57) \<or> n = 95)"

definition isSpaceChar :: "char \<Rightarrow> bool" where
  \<comment> \<open>the class \<^verbatim>\<open>\s\<close> below 256: tab, LF, VT, FF, CR, space and the no-break space\<close>
  "isSpaceChar c =
     (let n = (of_char c :: nat)
      in (9 \<le> n \<and> n \<le> 13) \<or> n = 32 \<or> n = 160)"

definition stripNonWord :: "string \<Rightarrow> string" where
  \<comment> \<open>\<^verbatim>\<open>.replace(/[^\w\s]/g, '')\<close>\<close>
  "stripNonWord text = filter (\<lambda>c. isWordChar c \<or> isSpaceChar c) text"

fun collapseFrom :: "bool \<Rightarrow> string \<Rightarrow> string" where
  \<comment> \<open>one left-to-right pass; the flag tells whether the previous code unit was a space\<close>
  "collapseFrom inRun [] = []"
| "collapseFrom inRun (c # cs) =
     (if isSpaceChar c
      then (if inRun then collapseFrom True cs else CHR '' '' # collapseFrom True cs)
      else c # collapseFrom False cs)"

definition collapseSpaces :: "string \<Rightarrow> string" where
  \<comment> \<open>\<^verbatim>\<open>.replace(/\s+/g, ' ')\<close>: every maximal run of spaces becomes one blank\<close>
  "collapseSpaces text = collapseFrom False text"

definition trim :: "string \<Rightarrow> string" where
  "trim text = rev (dropWhile isSpaceChar (rev (dropWhile isSpaceChar text)))"

definition str_includes :: "string \<Rightarrow> string \<Rightarrow> bool" where
  \<comment> \<open>\<^verbatim>\<open>text.includes(keyword)\<close>: the keyword occurs as a contiguous run\<close>
  "str_includes text keyword = sublist keyword text"

fun join :: "string \<Rightarrow> string list \<Rightarrow> string" where
  "join sep [] = []"
| "join sep [x] = x"
| "join sep (x # y # ys) = x @ sep @ join sep (y # ys)"

section \<open>Conversation turns\<close>

datatype role = System | User | Assistant

record turn =
  role :: role
  content :: "string option"

section \<open>TokenOptimizer\<close>

definition estimateTokens :: "string \<Rightarrow> nat" where
  \<comment> \<open>\<^verbatim>\<open>Math.ceil(text.length / 4)\<close>\<close>
  "estimateTokens text = (length text + 3) div 4"

definition bankingKeywords :: "(string \<times> string list) list" where
  "bankingKeywords =
     [(''savings'', [''savings'', ''save'', ''interest'']),
      (''credit'', [''credit'', ''score'', ''report'']),
      (''investment'', [''invest'', ''portfolio'', ''stocks'']),
      (''budget'', [''budget'', ''expenses'', ''spending'']),
      (''loans'', [''loan'', ''mortgage'', ''debt''])]"

definition addTopic :: "string list \<Rightarrow> string \<Rightarrow> string list" where
  \<comment> \<open>\<^verbatim>\<open>Set.add\<close>: a set keeps its elements in the order of their first insertion\<close>
  "addTopic topics topic = (if topic \<in> set topics then topics else topics @ [topic])"

definition exchangeText :: "turn \<Rightarrow> string" where
  \<comment> \<open>\<^verbatim>\<open>exchange.content?.toLowerCase() || ''\<close>\<close>
  "exchangeText exchange = (case content exchange of None \<Rightarrow> [] | Some c \<Rightarrow> toLowerCase c)"

definition mentions :: "string \<Rightarrow> string list \<Rightarrow> bool" where
  \<comment> \<open>\<^verbatim>\<open>keywords.some(keyword => text.includes(keyword))\<close>\<close>
  "mentions text keywords = (filter (str_includes text) keywords \<noteq> [])"

definition exchangeTopics :: "string list \<Rightarrow> turn \<Rightarrow> string list" where
  "exchangeTopics topics exchange =
     foldl (\<lambda>ts (topic, keywords).
              if mentions (exchangeText exchange) keywords then addTopic ts topic else ts)
           topics bankingKeywords"

definition extractTopics :: "turn list \<Rightarrow> string list" where
  "extractTopics history = foldl exchangeTopics [] history"

definition summaryText :: "turn list \<Rightarrow> string" where
  "summaryText older = ''Previous conversation covered: '' @ join '', '' (extractTopics older)"

definition summarizeHistory :: "turn list \<Rightarrow> turn list" where
  "summarizeHistory history =
     (if length history \<le> 2 then history
      else let recent = drop (length history - 2) history;
               older = take (length history - 2) history
           in \<lparr>role = System, content = Some (summaryText older)\<rparr> # recent)"

text \<open>
  The loop of \<^verbatim>\<open>optimizePrompt\<close>. The source calls \<^verbatim>\<open>this.formatHistory\<close>, which the
  repository does not define: it is the parameter \<open>formatHistory\<close>. The pair is
  (\<^verbatim>\<open>currentTokens\<close>, \<^verbatim>\<open>optimizedHistory\<close>).
\<close>

fun truncateHistory ::
  "nat \<Rightarrow> (turn list \<Rightarrow> string) \<Rightarrow> string \<Rightarrow> string \<Rightarrow> nat \<Rightarrow> turn list \<Rightarrow> nat \<times> turn list" where
  "truncateHistory maxTokens formatHistory systemPrompt userMessage currentTokens [] =
     (currentTokens, [])"
| "truncateHistory maxTokens formatHistory systemPrompt userMessage currentTokens (x # xs) =
     (if currentTokens > maxTokens
      then truncateHistory maxTokens formatHistory systemPrompt userMessage
             (estimateTokens systemPrompt + estimateTokens userMessage
                + estimateTokens (formatHistory xs)) xs
      else (currentTokens, x # xs))"

definition optimizePromptWith ::
  "nat \<Rightarrow> (turn list \<Rightarrow> string) \<Rightarrow> string \<Rightarrow> turn list \<Rightarrow> string \<Rightarrow> turn list" where
  \<comment> \<open>the body of \<^verbatim>\<open>optimizePrompt\<close> with its constant \<^verbatim>\<open>maxTokens\<close> taken as an argument\<close>
  "optimizePromptWith maxTokens formatHistory systemPrompt conversationHistory userMessage =
     (let (currentTokens, optimizedHistory) =
            truncateHistory maxTokens formatHistory systemPrompt userMessage
              (estimateTokens systemPrompt + estimateTokens userMessage) conversationHistory
      in if currentTokens > maxTokens then summarizeHistory optimizedHistory
         else optimizedHistory)"

definition optimizePrompt ::
  "(turn list \<Rightarrow> string) \<Rightarrow> string \<Rightarrow> turn list \<Rightarrow> string \<Rightarrow> turn list" where
  "optimizePrompt = optimizePromptWith 3500"

section \<open>OpenAIService\<close>

record exchange =
  user :: string
  assistant :: string

definition formatConversationHistory :: "string \<Rightarrow> exchange list \<Rightarrow> string \<Rightarrow> turn list" where
  \<comment> \<open>\<^verbatim>\<open>history.slice(-10)\<close> keeps the last ten exchanges, all of them when there are fewer\<close>
  "formatConversationHistory systemPrompt history currentMessage =
     (let recentHistory = drop (length history - 10) history
      in \<lparr>role = System, content = Some systemPrompt\<rparr>
         # concat (map (\<lambda>item. [\<lparr>role = User, content = Some (user item)\<rparr>,
                                  \<lparr>role = Assistant, content = Some (assistant item)\<rparr>])
                       recentHistory)
         @ [\<lparr>role = User, content = Some currentMessage\<rparr>])"

definition buildBankingSystemPrompt :: string where
  "buildBankingSystemPrompt =
      ''You are BankGPT, a professional AI banking advisor with expertise in personal finance, banking products, and financial planning.\<newline>'' @
      ''\<newline>'' @
      ''Your role:\<newline>'' @
      ''- Provide helpful, accurate banking and financial advice\<newline>'' @
      ''- Explain complex financial concepts in simple terms\<newline>'' @
      ''- Recommend appropriate banking products and services\<newline>'' @
      ''- Help users make informed financial decisions\<newline>'' @
      ''\<newline>'' @
      ''Guidelines:\<newline>'' @
      ''- Always maintain a professional but friendly tone\<newline>'' @
      ''- Provide practical, actionable advice\<newline>'' @
      ''- Include disclaimers for major financial decisions\<newline>'' @
      ''- Recommend consulting with licensed professionals when appropriate\<newline>'' @
      ''- Focus on educational content rather than specific product recommendations\<newline>'' @
      ''- Never provide investment advice that could be considered financial planning\<newline>'' @
      ''- Always prioritize the user's financial wellbeing\<newline>'' @
      ''\<newline>'' @
      ''Banking Topics You Cover:\<newline>'' @
      ''- Savings accounts and interest rates\<newline>'' @
      ''- Checking accounts and banking fees\<newline>'' @
      ''- Credit scores and credit improvement\<newline>'' @
      ''- Loans and mortgages\<newline>'' @
      ''- Basic investment concepts\<newline>'' @
      ''- Budgeting and financial planning\<newline>'' @
      ''- Debt management strategies\<newline>'' @
      ''- Banking security and fraud prevention\<newline>'' @
      ''\<newline>'' @
      ''Keep responses conversational, informative, and within 2-3 paragraphs unless the user specifically asks for detailed information.''"

record token_usage =
  prompt_tokens :: nat
  completion_tokens :: nat
  total_tokens :: nat

record request =
  model :: string
  messages :: "turn list"
  max_tokens :: int
  temperature :: rat
  presence_penalty :: rat
  frequency_penalty :: rat

record completion =
  choices :: "turn list"
  usage :: token_usage

text \<open>
  The client of the completion endpoint is a library outside the repository. A call of
  \<^verbatim>\<open>client.chat.completions.create\<close> returns a completion or throws; what it throws
  is described by the way the request failed, and carries a message.
\<close>

datatype upstream_failure =
    NetworkFailure string
  | HttpStatus nat string
  | UnparsableBody string

fun failureMessage :: "upstream_failure \<Rightarrow> string" where
  "failureMessage (NetworkFailure m) = m"
| "failureMessage (HttpStatus code m) = m"
| "failureMessage (UnparsableBody m) = m"

datatype js_error = Error string

fun errorMessage :: "js_error \<Rightarrow> string" where
  "errorMessage (Error m) = m"

record openai_env =
  OPENAI_MODEL :: "string option"
  OPENAI_MAX_TOKENS :: "int option"

definition configuredModel :: "openai_env \<Rightarrow> string" where
  \<comment> \<open>\<^verbatim>\<open>process.env.OPENAI_MODEL || 'gpt-3.5-turbo'\<close>\<close>
  "configuredModel env =
     (case OPENAI_MODEL env of None \<Rightarrow> ''gpt-3.5-turbo''
      | Some m \<Rightarrow> if m = [] then ''gpt-3.5-turbo'' else m)"

definition configuredMaxTokens :: "openai_env \<Rightarrow> int" where
  \<comment> \<open>\<^verbatim>\<open>parseInt(process.env.OPENAI_MAX_TOKENS) || 500\<close>; \<open>None\<close> is \<^verbatim>\<open>NaN\<close>\<close>
  "configuredMaxTokens env =
     (case OPENAI_MAX_TOKENS env of None \<Rightarrow> 500
      | Some n \<Rightarrow> if n = 0 then 500 else n)"

definition buildRequest :: "openai_env \<Rightarrow> string \<Rightarrow> exchange list \<Rightarrow> request" where
  "buildRequest env message conversationHistory =
     \<lparr>model = configuredModel env,
      messages = formatConversationHistory buildBankingSystemPrompt conversationHistory message,
      max_tokens = configuredMaxTokens env,
      temperature = 0.7,
      presence_penalty = 0.1,
      frequency_penalty = 0.1\<rparr>"

definition OpenAIService_calculateCost :: "token_usage \<Rightarrow> rat" where
  "OpenAIService_calculateCost u =
     (of_nat (prompt_tokens u) * 0.0005 / 1000) + (of_nat (completion_tokens u) * 0.0015 / 1000)"

definition noChoiceMessage :: string where
  \<comment> \<open>the message of the TypeError that \<^verbatim>\<open>response.choices[0].message\<close> throws on no choice\<close>
  "noChoiceMessage = ''Cannot read properties of undefined (reading 'message')''"

text \<open>
  \<^verbatim>\<open>generateResponse\<close>. The source calls \<^verbatim>\<open>this.saveUsageMetrics\<close>, which the repository
  does not define: it is the parameter \<open>saveUsageMetrics\<close>, returning \<open>Some e\<close> when it
  throws \<open>e\<close>. Everything from the request on is inside the \<^verbatim>\<open>try\<close> block, whose
  \<^verbatim>\<open>catch\<close> rethrows \<^verbatim>\<open>new Error(`OpenAI API Error: ${error.message}`)\<close>.
\<close>

definition rethrow :: "string \<Rightarrow> js_error" where
  "rethrow m = Error (''OpenAI API Error: '' @ m)"

definition generateResponse ::
  "(request \<Rightarrow> upstream_failure + completion) \<Rightarrow> openai_env
     \<Rightarrow> (token_usage \<Rightarrow> rat \<Rightarrow> js_error option)
     \<Rightarrow> string \<Rightarrow> exchange list \<Rightarrow> js_error + (string option \<times> token_usage)" where
  "generateResponse create env saveUsageMetrics message conversationHistory =
     (case create (buildRequest env message conversationHistory) of
        Inl failure \<Rightarrow> Inl (rethrow (failureMessage failure))
      | Inr response \<Rightarrow>
          (case saveUsageMetrics (usage response) (OpenAIService_calculateCost (usage response)) of
             Some e \<Rightarrow> Inl (rethrow (errorMessage e))
           | None \<Rightarrow>
               (case choices response of
                  [] \<Rightarrow> Inl (rethrow noChoiceMessage)
                | choice # _ \<Rightarrow> Inr (content choice, usage response))))"

section \<open>ConversationService\<close>

text \<open>
  \<^verbatim>\<open>summarizeConversation\<close> calls \<^verbatim>\<open>this.generateSummary\<close>, which the repository does
  not define: it is the parameter \<open>generateSummary\<close>.
\<close>

definition summarizeConversation :: "(turn list \<Rightarrow> string) \<Rightarrow> turn list \<Rightarrow> turn list" where
  "summarizeConversation generateSummary conversationHistory =
     (if length conversationHistory > 20
      then let olderMessages = take (length conversationHistory - 10) conversationHistory;
               recentMessages = drop (length conversationHistory - 10) conversationHistory
           in \<lparr>role = System,
               content = Some (''Previous conversation summary: '' @ generateSummary olderMessages)\<rparr>
              # recentMessages
      else conversationHistory)"

section \<open>The key-value store\<close>

text \<open>
  The store client is a library outside the repository. It is modelled as a map from
  keys to a time-to-live and a value; while \<open>outage\<close> is \<open>Some e\<close> every command is
  rejected with \<open>e\<close>. Elapsed time is not modelled: an entry is never evicted.
\<close>

record redis_client =
  entries :: "string \<rightharpoonup> nat \<times> string"
  outage :: "js_error option"

definition redis_get :: "redis_client \<Rightarrow> string \<Rightarrow> js_error + string option" where
  "redis_get r k =
     (case outage r of Some e \<Rightarrow> Inl e | None \<Rightarrow> Inr (map_option snd (entries r k)))"

definition redis_setex :: "redis_client \<Rightarrow> string \<Rightarrow> nat \<Rightarrow> string \<Rightarrow> js_error + redis_client" where
  "redis_setex r k ttl v =
     (case outage r of Some e \<Rightarrow> Inl e
      | None \<Rightarrow> Inr (r\<lparr>entries := (entries r)(k \<mapsto> (ttl, v))\<rparr>))"

definition redis_expire :: "redis_client \<Rightarrow> string \<Rightarrow> nat \<Rightarrow> js_error + redis_client" where
  "redis_expire r k ttl =
     (case outage r of Some e \<Rightarrow> Inl e
      | None \<Rightarrow> Inr (case entries r k of None \<Rightarrow> r
                     | Some (old, v) \<Rightarrow> r\<lparr>entries := (entries r)(k \<mapsto> (ttl, v))\<rparr>))"

section \<open>CacheService\<close>

text \<open>
  \<^verbatim>\<open>Buffer.from(s).toString('base64')\<close>, \<^verbatim>\<open>JSON.parse\<close> and \<^verbatim>\<open>JSON.stringify\<close> belong
  to the platform: they are the parameters \<open>base64\<close>, \<open>parse\<close> (which may throw) and
  \<open>stringify\<close>. The assignment \<^verbatim>\<open>response.fromCache = true\<close> throws in a class body when
  the parsed value is not an object: it is the parameter \<open>setFromCache\<close>.
\<close>

definition createCacheKey :: "(string \<Rightarrow> string) \<Rightarrow> string \<Rightarrow> string" where
  "createCacheKey base64 message =
     (let normalized = trim (stripNonWord (toLowerCase message))
      in ''response:'' @ base64 normalized)"

definition CacheService_getCachedResponse ::
  "redis_client \<Rightarrow> (string \<Rightarrow> string) \<Rightarrow> (string \<Rightarrow> js_error + 'r) \<Rightarrow> ('r \<Rightarrow> js_error + 'r)
     \<Rightarrow> string \<Rightarrow> js_error + 'r option" where
  "CacheService_getCachedResponse r base64 parse setFromCache userMessage =
     (let cacheKey = createCacheKey base64 userMessage
      in case redis_get r cacheKey of
           Inl error \<Rightarrow> Inr None
         | Inr None \<Rightarrow> Inr None
         | Inr (Some cached) \<Rightarrow>
             if cached = [] then Inr None
             else (case parse cached of
                     Inl error \<Rightarrow> Inr None
                   | Inr response \<Rightarrow>
                       (case setFromCache response of
                          Inl error \<Rightarrow> Inr None
                        | Inr response' \<Rightarrow> Inr (Some response'))))"

definition CacheService_setCachedResponse ::
  "redis_client \<Rightarrow> (string \<Rightarrow> string) \<Rightarrow> ('r \<Rightarrow> string) \<Rightarrow> string \<Rightarrow> 'r \<Rightarrow> nat
     \<Rightarrow> js_error + redis_client" where
  "CacheService_setCachedResponse r base64 stringify userMessage response ttl =
     (let cacheKey = createCacheKey base64 userMessage
      in case redis_setex r cacheKey ttl (stringify response) of
           Inl error \<Rightarrow> Inr r
         | Inr r' \<Rightarrow> Inr r')"

section \<open>CacheStrategy\<close>

record cache_strategy =
  redis :: redis_client
  commonQuestions :: "string \<rightharpoonup> nat"

definition normalizeMessage :: "string \<Rightarrow> string" where
  "normalizeMessage message = trim (collapseSpaces (stripNonWord (toLowerCase message)))"

datatype cache_source = exact_cache | similar_cache

text \<open>
  \<^verbatim>\<open>getCachedResponse\<close> calls \<^verbatim>\<open>this.findSimilarQuestion\<close>, which the repository does not
  define: it is the parameter \<open>findSimilarQuestion\<close>. The method has no \<^verbatim>\<open>try\<close> block:
  what the store, the parser or the parameter throws leaves the method.
\<close>

definition CacheStrategy_getCachedResponse ::
  "cache_strategy \<Rightarrow> (string \<Rightarrow> js_error + string option) \<Rightarrow> (string \<Rightarrow> js_error + 'r)
     \<Rightarrow> string \<Rightarrow> js_error + ('r \<times> cache_source) option" where
  "CacheStrategy_getCachedResponse this findSimilarQuestion parse message =
     (let normalizedMessage = normalizeMessage message
      in case redis_get (redis this) (''exact:'' @ normalizedMessage) of
           Inl error \<Rightarrow> Inl error
         | Inr cached \<Rightarrow>
             if cached \<noteq> None \<and> cached \<noteq> Some []
             then (case parse (the cached) of
                     Inl error \<Rightarrow> Inl error
                   | Inr response \<Rightarrow> Inr (Some (response, exact_cache)))
             else (case findSimilarQuestion normalizedMessage of
                     Inl error \<Rightarrow> Inl error
                   | Inr similarKey \<Rightarrow>
                       if similarKey \<noteq> None \<and> similarKey \<noteq> Some []
                       then (case redis_get (redis this) (''similar:'' @ the similarKey) of
                               Inl error \<Rightarrow> Inl error
                             | Inr cached' \<Rightarrow>
                                 if cached' \<noteq> None \<and> cached' \<noteq> Some []
                                 then (case parse (the cached') of
                                         Inl error \<Rightarrow> Inl error
                                       | Inr response \<Rightarrow> Inr (Some (response, similar_cache)))
                                 else Inr None)
                       else Inr None))"

definition trackCommonQuestion :: "cache_strategy \<Rightarrow> string \<Rightarrow> cache_strategy" where
  \<comment> \<open>\<^verbatim>\<open>this.redis.expire\<close> is not awaited: its rejection does not leave the method\<close>
  "trackCommonQuestion this message =
     (let count = (case commonQuestions this message of None \<Rightarrow> 0 | Some n \<Rightarrow> n);
          this' = this\<lparr>commonQuestions := (commonQuestions this)(message \<mapsto> count + 1)\<rparr>
      in if count > 10
         then (case redis_expire (redis this') (''exact:'' @ message) 604800 of
                 Inl error \<Rightarrow> this'
               | Inr r' \<Rightarrow> this'\<lparr>redis := r'\<rparr>)
         else this')"

definition cacheResponse ::
  "cache_strategy \<Rightarrow> ('r \<Rightarrow> string) \<Rightarrow> string \<Rightarrow> 'r \<Rightarrow> nat \<Rightarrow> js_error + cache_strategy" where
  "cacheResponse this stringify message response ttl =
     (let normalizedMessage = normalizeMessage message
      in case redis_setex (redis this) (''exact:'' @ normalizedMessage) ttl (stringify response) of
           Inl error \<Rightarrow> Inl error
         | Inr r' \<Rightarrow> Inr (trackCommonQuestion (this\<lparr>redis := r'\<rparr>) normalizedMessage))"

section \<open>CostTracker\<close>

text \<open>
  A JavaScript number is modelled as an exact rational or \<^verbatim>\<open>NaN\<close>; rounding to a double is
  not modelled. Arithmetic with \<^verbatim>\<open>NaN\<close> gives \<^verbatim>\<open>NaN\<close>, and every comparison with it is false.
\<close>

datatype jsnum = Num rat | NaN

fun jsadd :: "jsnum \<Rightarrow> jsnum \<Rightarrow> jsnum" where
  "jsadd (Num a) (Num b) = Num (a + b)"
| "jsadd a b = NaN"

record pricing_entry =
  input_rate :: rat
  output_rate :: rat

definition pricing :: "(string \<times> pricing_entry) list" where
  "pricing =
     [(''gpt-3.5-turbo'', \<lparr>input_rate = 0.0005, output_rate = 0.0015\<rparr>),
      (''gpt-4'', \<lparr>input_rate = 0.03, output_rate = 0.06\<rparr>)]"

definition objectPrototypeProperties :: "string list" where
  \<comment> \<open>the properties that an object literal inherits from \<^verbatim>\<open>Object.prototype\<close>\<close>
  "objectPrototypeProperties =
     [''constructor'', ''__proto__'', ''hasOwnProperty'', ''isPrototypeOf'',
      ''propertyIsEnumerable'', ''toLocaleString'', ''toString'', ''valueOf'',
      ''__defineGetter__'', ''__defineSetter__'', ''__lookupGetter__'', ''__lookupSetter__'']"

datatype 'a property = Own 'a | Inherited | Undefined

definition pricingProperty :: "string \<Rightarrow> pricing_entry property" where
  \<comment> \<open>\<^verbatim>\<open>pricing[model]\<close>: an own property, else one found on the prototype, else undefined\<close>
  "pricingProperty m =
     (case map_of pricing m of
        Some entry \<Rightarrow> Own entry
      | None \<Rightarrow> if m \<in> set objectPrototypeProperties then Inherited else Undefined)"

definition costWith :: "pricing_entry \<Rightarrow> token_usage \<Rightarrow> jsnum" where
  "costWith modelPricing u =
     Num ((of_nat (prompt_tokens u) * input_rate modelPricing / 1000)
          + (of_nat (completion_tokens u) * output_rate modelPricing / 1000))"

definition calculateCost :: "token_usage \<Rightarrow> string \<Rightarrow> jsnum" where
  \<comment> \<open>an inherited property is truthy and has no rate: the product with
      \<^verbatim>\<open>undefined\<close> is \<^verbatim>\<open>NaN\<close>\<close>
  "calculateCost u m =
     (case pricingProperty m of
        Own modelPricing \<Rightarrow> costWith modelPricing u
      | Inherited \<Rightarrow> NaN
      | Undefined \<Rightarrow>
          (case pricingProperty ''gpt-3.5-turbo'' of
             Own modelPricing \<Rightarrow> costWith modelPricing u
           | Inherited \<Rightarrow> NaN
           | Undefined \<Rightarrow> NaN))"

datatype alert_level = INFO | WARNING | CRITICAL

record alert =
  level :: alert_level
  alert_message :: string
  amount :: jsnum

record daily_usage =
  date :: string
  totalTokens :: nat
  totalCost :: jsnum
  requestCount :: nat

record budget_limits =
  daily :: rat
  monthly :: rat

text \<open>
  The tracker, with the lines that \<^verbatim>\<open>sendAlert\<close> writes to the console as the field
  \<open>alerts\<close>. An alert's message is kept as its text and the amount that the source
  formats into it.
\<close>

record cost_tracker =
  dailyUsage :: daily_usage
  budgetLimits :: budget_limits
  alerts :: "alert list"

definition envLimit :: "rat option \<Rightarrow> rat \<Rightarrow> rat" where
  \<comment> \<open>\<^verbatim>\<open>parseFloat(process.env.X) || d\<close>; \<open>None\<close> is \<^verbatim>\<open>NaN\<close>\<close>
  "envLimit v d = (case v of None \<Rightarrow> d | Some x \<Rightarrow> if x = 0 then d else x)"

definition newCostTracker :: "string \<Rightarrow> rat option \<Rightarrow> rat option \<Rightarrow> cost_tracker" where
  "newCostTracker today DAILY_COST_LIMIT MONTHLY_COST_LIMIT =
     \<lparr>dailyUsage = \<lparr>date = today, totalTokens = 0, totalCost = Num 0, requestCount = 0\<rparr>,
      budgetLimits = \<lparr>daily = envLimit DAILY_COST_LIMIT 50,
                      monthly = envLimit MONTHLY_COST_LIMIT 1000\<rparr>,
      alerts = []\<rparr>"

definition dailyPercentageAtLeast :: "cost_tracker \<Rightarrow> rat \<Rightarrow> bool" where
  \<comment> \<open>\<^verbatim>\<open>(totalCost / daily) * 100 >= n\<close>; a positive cost over a zero limit is \<^verbatim>\<open>Infinity\<close>\<close>
  "dailyPercentageAtLeast this n =
     (case totalCost (dailyUsage this) of
        NaN \<Rightarrow> False
      | Num c \<Rightarrow> if daily (budgetLimits this) = 0 then c > 0
                 else c / daily (budgetLimits this) * 100 \<ge> n)"

definition sendAlert :: "cost_tracker \<Rightarrow> alert_level \<Rightarrow> string \<Rightarrow> cost_tracker" where
  "sendAlert this lvl msg =
     this\<lparr>alerts := alerts this
             @ [\<lparr>level = lvl, alert_message = msg, amount = totalCost (dailyUsage this)\<rparr>]\<rparr>"

definition checkBudgetAlerts :: "cost_tracker \<Rightarrow> cost_tracker" where
  "checkBudgetAlerts this =
     (if dailyPercentageAtLeast this 90 then sendAlert this CRITICAL ''Daily budget 90% exceeded''
      else if dailyPercentageAtLeast this 75 then sendAlert this WARNING ''Daily budget 75% reached''
      else if dailyPercentageAtLeast this 50 then sendAlert this INFO ''Daily budget 50% reached''
      else this)"

text \<open>
  \<^verbatim>\<open>trackUsage\<close> returns the cost and leaves the tracker updated. The source ends with
  \<^verbatim>\<open>this.storeUsageData\<close>, which the repository does not define and which does not
  touch the tracker.
\<close>

definition trackUsage :: "cost_tracker \<Rightarrow> token_usage \<Rightarrow> string \<Rightarrow> jsnum \<times> cost_tracker" where
  "trackUsage this u m =
     (let cost = calculateCost u m;
          this' = this\<lparr>dailyUsage := (dailyUsage this)
                    \<lparr>totalTokens := totalTokens (dailyUsage this) + total_tokens u,
                     totalCost := jsadd (totalCost (dailyUsage this)) cost,
                     requestCount := requestCount (dailyUsage this) + 1\<rparr>\<rparr>
      in (cost, checkBudgetAlerts this'))"

fun trackAll :: "cost_tracker \<Rightarrow> (token_usage \<times> string) list \<Rightarrow> cost_tracker" where
  \<comment> \<open>a sequence of \<^verbatim>\<open>trackUsage\<close> calls on one tracker\<close>
  "trackAll this [] = this"
| "trackAll this ((u, m) # calls) = trackAll (snd (trackUsage this u m)) calls"

section \<open>Reference predicates and example data\<close>

text \<open>Which alert one check emits, read off the running total: at most one, of the highest band.\<close>

definition emitted :: "cost_tracker \<Rightarrow> alert list" where
  "emitted t =
     (if dailyPercentageAtLeast t 90
      then [\<lparr>level = CRITICAL, alert_message = ''Daily budget 90% exceeded'',
             amount = totalCost (dailyUsage t)\<rparr>]
      else if dailyPercentageAtLeast t 75
      then [\<lparr>level = WARNING, alert_message = ''Daily budget 75% reached'',
             amount = totalCost (dailyUsage t)\<rparr>]
      else if dailyPercentageAtLeast t 50
      then [\<lparr>level = INFO, alert_message = ''Daily budget 50% reached'',
             amount = totalCost (dailyUsage t)\<rparr>]
      else [])"

text \<open>
  Two messages differ only in letter case and in punctuation when, read from the left
  with every code unit that is neither a word character nor a space skipped on either
  side, they agree up to case.
\<close>

definition isPunctuation :: "char \<Rightarrow> bool" where
  "isPunctuation c = (\<not> isWordChar c \<and> \<not> isSpaceChar c)"

fun differOnlyInCaseAndPunctuation :: "string \<Rightarrow> string \<Rightarrow> bool" where
  "differOnlyInCaseAndPunctuation [] [] = True"
| "differOnlyInCaseAndPunctuation (c # cs) [] =
     (isPunctuation c \<and> differOnlyInCaseAndPunctuation cs [])"
| "differOnlyInCaseAndPunctuation [] (d # ds) =
     (isPunctuation d \<and> differOnlyInCaseAndPunctuation [] ds)"
| "differOnlyInCaseAndPunctuation (c # cs) (d # ds) =
     (if isPunctuation c then differOnlyInCaseAndPunctuation cs (d # ds)
      else if isPunctuation d then differOnlyInCaseAndPunctuation (c # cs) ds
      else toLowerChar c = toLowerChar d \<and> differOnlyInCaseAndPunctuation cs ds)"

text \<open>A completion client whose every request fails the same way, and a metrics sink that returns.\<close>

definition failingClient :: "upstream_failure \<Rightarrow> request \<Rightarrow> upstream_failure + completion" where
  "failingClient failure req = Inl failure"

definition noMetrics :: "token_usage \<Rightarrow> rat \<Rightarrow> js_error option" where
  "noMetrics u cost = None"

definition defaultEnv :: openai_env where
  "defaultEnv = \<lparr>OPENAI_MODEL = None, OPENAI_MAX_TOKENS = None\<rparr>"

text \<open>A rendering of the history for \<open>formatHistory\<close>: the contents, one after the other.\<close>

definition plainHistory :: "turn list \<Rightarrow> string" where
  "plainHistory h = concat (map (\<lambda>t. case content t of None \<Rightarrow> [] | Some c \<Rightarrow> c) h)"

definition turnOf :: "nat \<Rightarrow> turn" where
  \<comment> \<open>a user turn of \<open>n\<close> characters\<close>
  "turnOf n = \<lparr>role = User, content = Some (replicate n CHR ''h'')\<rparr>"

definition say :: "role \<Rightarrow> string \<Rightarrow> turn" where
  "say r txt = \<lparr>role = r, content = Some txt\<rparr>"

text \<open>
  A cache over an empty store that is up, a similarity search that finds nothing, and
  responses that are plain strings, stored as they are.
\<close>

definition emptyCache :: cache_strategy where
  "emptyCache = \<lparr>redis = \<lparr>entries = Map.empty, outage = None\<rparr>, commonQuestions = Map.empty\<rparr>"

definition noSimilar :: "string \<Rightarrow> js_error + string option" where
  "noSimilar q = Inr None"

definition parseText :: "string \<Rightarrow> js_error + string" where
  "parseText s = Inr s"

definition stringifyText :: "string \<Rightarrow> string" where
  "stringifyText s = s"

text \<open>The topics in the order of the keyword table, each present or not.\<close>

definition topicsFor :: "bool \<Rightarrow> bool \<Rightarrow> bool \<Rightarrow> bool \<Rightarrow> bool \<Rightarrow> string list" where
  "topicsFor b1 b2 b3 b4 b5 =
     (if b1 then [''savings''] else []) @ (if b2 then [''credit''] else [])
     @ (if b3 then [''investment''] else []) @ (if b4 then [''budget''] else [])
     @ (if b5 then [''loans''] else [])"

definition usageOf :: "nat \<Rightarrow> nat \<Rightarrow> token_usage" where
  "usageOf p c = \<lparr>prompt_tokens = p, completion_tokens = c, total_tokens = p + c\<rparr>"

section \<open>Properties of TokenOptimizer.optimizePrompt\<close>

lemma truncateHistory_within:
  "cur \<le> B \<Longrightarrow> truncateHistory B fmt s u cur h = (cur, h)"
  by (cases h) simp_all

lemma truncateHistory_over:
  "estimateTokens s + estimateTokens u > B \<Longrightarrow> cur > B \<Longrightarrow>
   \<exists>c. c > B \<and> truncateHistory B fmt s u cur h = (c, [])"
  by (induction h arbitrary: cur) auto

text \<open>
  The loop starts from the estimate of the system prompt and the user message alone, so
  it either leaves the history whole or empties it.
\<close>

lemma optimizePromptWith_within:
  "estimateTokens s + estimateTokens u \<le> B \<Longrightarrow> optimizePromptWith B fmt s h u = h"
  by (simp add: optimizePromptWith_def truncateHistory_within)

lemma optimizePromptWith_over:
  assumes "estimateTokens s + estimateTokens u > B"
  shows "optimizePromptWith B fmt s h u = []"
proof -
  obtain c where "c > B"
    and "truncateHistory B fmt s u (estimateTokens s + estimateTokens u) h = (c, [])"
    using truncateHistory_over[OF assms assms] by blast
  then show ?thesis
    by (simp add: optimizePromptWith_def summarizeHistory_def)
qed

lemma estimateTokens_replicate: "estimateTokens (replicate n c) = (n + 3) div 4"
  by (simp add: estimateTokens_def)

lemma plainHistory_five:
  "length (plainHistory [turnOf n, turnOf n, turnOf n, turnOf n, turnOf n]) = 5 * n"
  by (simp add: plainHistory_def turnOf_def)

text \<open>
  C1. With a system prompt of estimate 50, a user message of estimate 10 and five history
  turns of estimate 30 each, \<open>optimizePromptWith 100\<close> returns all five turns, whatever
  \<open>formatHistory\<close> is: 210 estimated tokens against a budget of 100. With the constant
  3500 of the source and five turns of estimate 3500 each, \<open>optimizePrompt\<close> returns all
  five as well. The history is never counted before the loop is entered.
\<close>

theorem optimizePrompt_keeps_history_over_budget:
  "optimizePromptWith 100 formatHistory (replicate 200 CHR ''s'')
       [turnOf 120, turnOf 120, turnOf 120, turnOf 120, turnOf 120] (replicate 40 CHR ''u'')
     = [turnOf 120, turnOf 120, turnOf 120, turnOf 120, turnOf 120]
   \<and> estimateTokens (replicate 200 CHR ''s'') = 50
   \<and> estimateTokens (replicate 40 CHR ''u'') = 10
   \<and> estimateTokens (plainHistory [turnOf 120]) = 30
   \<and> estimateTokens (plainHistory [turnOf 120, turnOf 120, turnOf 120, turnOf 120, turnOf 120]) = 150
   \<and> optimizePrompt formatHistory (replicate 200 CHR ''s'')
       [turnOf 14000, turnOf 14000, turnOf 14000, turnOf 14000, turnOf 14000]
       (replicate 40 CHR ''u'')
     = [turnOf 14000, turnOf 14000, turnOf 14000, turnOf 14000, turnOf 14000]
   \<and> estimateTokens (plainHistory [turnOf 14000]) = 3500"
proof -
  have small: "estimateTokens (replicate 200 CHR ''s'') + estimateTokens (replicate 40 CHR ''u'') \<le> 100"
    by (simp add: estimateTokens_replicate)
  have large: "estimateTokens (replicate 200 CHR ''s'') + estimateTokens (replicate 40 CHR ''u'') \<le> 3500"
    by (simp add: estimateTokens_replicate)
  have one: "plainHistory [turnOf n] = replicate n CHR ''h''" for n
    by (simp add: plainHistory_def turnOf_def)
  have five: "estimateTokens (plainHistory [turnOf 120, turnOf 120, turnOf 120, turnOf 120, turnOf 120]) = 150"
    by (simp add: estimateTokens_def plainHistory_five)
  show ?thesis
    using optimizePromptWith_within[OF small] optimizePromptWith_within[OF large] five
    by (simp add: optimizePrompt_def estimateTokens_replicate one)
qed

section \<open>Properties of TokenOptimizer.summarizeHistory\<close>

lemma set_addTopic: "set (addTopic ts t) = insert t (set ts)"
  by (auto simp: addTopic_def)

lemma distinct_addTopic: "distinct ts \<Longrightarrow> distinct (addTopic ts t)"
  by (simp add: addTopic_def)

lemma mentions_iff: "mentions txt kws = (\<exists>k \<in> set kws. str_includes txt k)"
  by (simp add: mentions_def filter_empty_conv)

lemma set_topic_fold:
  "set (foldl (\<lambda>ts (topic, keywords). if mentions txt keywords then addTopic ts topic else ts) ts0 tb)
     = set ts0 \<union> {topic. \<exists>kws. (topic, kws) \<in> set tb \<and> mentions txt kws}"
proof (induction tb arbitrary: ts0)
  case Nil
  then show ?case by simp
next
  case (Cons e tb)
  obtain topic kws where e: "e = (topic, kws)" by (cases e)
  show ?case
    by (auto simp: e Cons.IH set_addTopic)
qed

lemma distinct_topic_fold:
  "distinct ts0 \<Longrightarrow>
   distinct (foldl (\<lambda>ts (topic, keywords). if mentions txt keywords then addTopic ts topic else ts) ts0 tb)"
proof (induction tb arbitrary: ts0)
  case Nil
  then show ?case by simp
next
  case (Cons e tb)
  obtain topic kws where e: "e = (topic, kws)" by (cases e)
  show ?case
    using Cons.prems by (auto simp: e intro!: Cons.IH distinct_addTopic)
qed

lemma set_exchangeTopics:
  "set (exchangeTopics ts x)
     = set ts \<union> {topic. \<exists>kws. (topic, kws) \<in> set bankingKeywords \<and> mentions (exchangeText x) kws}"
  by (simp add: exchangeTopics_def set_topic_fold)

lemma distinct_exchangeTopics: "distinct ts \<Longrightarrow> distinct (exchangeTopics ts x)"
  by (simp add: exchangeTopics_def distinct_topic_fold)

lemma set_foldl_exchangeTopics:
  "set (foldl exchangeTopics ts h)
     = set ts \<union> {topic. \<exists>x \<in> set h. \<exists>kws. (topic, kws) \<in> set bankingKeywords
                                      \<and> mentions (exchangeText x) kws}"
  by (induction h arbitrary: ts) (auto simp: set_exchangeTopics)

lemma distinct_foldl_exchangeTopics:
  "distinct ts \<Longrightarrow> distinct (foldl exchangeTopics ts h)"
  by (induction h arbitrary: ts) (auto simp: distinct_exchangeTopics)

lemma distinct_extractTopics: "distinct (extractTopics h)"
  by (simp add: extractTopics_def distinct_foldl_exchangeTopics)

lemma bankingKeywords_functional:
  "(topic, kws) \<in> set bankingKeywords \<Longrightarrow> (topic, kws') \<in> set bankingKeywords \<Longrightarrow> kws' = kws"
  by (auto simp: bankingKeywords_def)

lemma set_extractTopics:
  "set (extractTopics h)
     = {topic. \<exists>x \<in> set h. \<exists>kws. (topic, kws) \<in> set bankingKeywords
                                \<and> mentions (exchangeText x) kws}"
  by (simp add: extractTopics_def set_foldl_exchangeTopics)

lemma extractTopics_iff:
  assumes "(topic, kws) \<in> set bankingKeywords"
  shows "(topic \<in> set (extractTopics h))
           = (\<exists>x \<in> set h. \<exists>k \<in> set kws. str_includes (exchangeText x) k)"
proof
  assume "topic \<in> set (extractTopics h)"
  then obtain x kws' where x: "x \<in> set h" and k: "(topic, kws') \<in> set bankingKeywords"
    and m: "mentions (exchangeText x) kws'"
    unfolding set_extractTopics by blast
  from bankingKeywords_functional[OF assms k] m have "mentions (exchangeText x) kws" by simp
  with x show "\<exists>x \<in> set h. \<exists>k \<in> set kws. str_includes (exchangeText x) k"
    unfolding mentions_iff by blast
next
  assume "\<exists>x \<in> set h. \<exists>k \<in> set kws. str_includes (exchangeText x) k"
  then obtain x where "x \<in> set h" and "mentions (exchangeText x) kws"
    unfolding mentions_iff by blast
  with assms show "topic \<in> set (extractTopics h)"
    unfolding set_extractTopics by blast
qed

lemma extractTopics_subset: "set (extractTopics h) \<subseteq> fst ` set bankingKeywords"
proof
  fix topic assume "topic \<in> set (extractTopics h)"
  then obtain kws where "(topic, kws) \<in> set bankingKeywords"
    unfolding set_extractTopics by blast
  then show "topic \<in> fst ` set bankingKeywords" by force
qed

lemma sublist_behind: "sublist t ys \<Longrightarrow> sublist t (xs @ ys)"
  unfolding sublist_def by (metis append.assoc)

lemma sublist_join: "t \<in> set ts \<Longrightarrow> sublist t (join sep ts)"
proof (induction sep ts rule: join.induct)
  case (1 sep)
  then show ?case by simp
next
  case (2 sep x)
  then show ?case by simp
next
  case (3 sep x y ys)
  show ?case
  proof (cases "t = x")
    case True
    then show ?thesis by simp
  next
    case False
    with 3 have "sublist t (join sep (y # ys))" by simp
    then have "sublist t (x @ (sep @ join sep (y # ys)))"
      by (intro sublist_behind)
    then show ?thesis by simp
  qed
qed

lemma summaryText_names: "t \<in> set (extractTopics older) \<Longrightarrow> sublist t (summaryText older)"
  unfolding summaryText_def by (intro sublist_behind sublist_join)

lemma last_two:
  assumes "2 < length h"
  shows "drop (length h - 2) h = [h ! (length h - 2), h ! (length h - 1)]"
proof (rule nth_equalityI)
  show "length (drop (length h - 2) h) = length [h ! (length h - 2), h ! (length h - 1)]"
    using assms by simp
next
  fix i assume "i < length (drop (length h - 2) h)"
  then have "i = 0 \<or> i = 1" using assms by auto
  then show "drop (length h - 2) h ! i = [h ! (length h - 2), h ! (length h - 1)] ! i"
  proof
    assume "i = 0" then show ?thesis using assms by simp
  next
    assume i: "i = 1"
    have "length h - 2 + 1 = length h - 1" using assms by simp
    then show ?thesis using assms by (simp add: i)
  qed
qed

lemma summarizeConversation_cases:
  "summarizeConversation g h =
     (if length h \<le> 20 then h
      else \<lparr>role = System,
            content = Some (''Previous conversation summary: '' @ g (take (length h - 10) h))\<rparr>
           # drop (length h - 10) h)"
  by (simp add: summarizeConversation_def Let_def)

text \<open>
  C3, as stated, fails at length 3. Four turns are summarized into three; the summarizer
  applied to these three replaces the summary turn (the topics come out in the order of
  the keyword table), so a sequence of three turns is not returned unchanged.
\<close>

theorem summarizeHistory_three_turns_changed:
  "summarizeHistory [say User ''I need a Loan'', say Assistant ''You could save more'',
                     say User ''ok'', say Assistant ''bye'']
     = [say System ''Previous conversation covered: loans, savings'',
        say User ''ok'', say Assistant ''bye'']
   \<and> length [say System ''Previous conversation covered: loans, savings'',
              say User ''ok'', say Assistant ''bye''] = 3
   \<and> summarizeHistory [say System ''Previous conversation covered: loans, savings'',
                       say User ''ok'', say Assistant ''bye'']
     = [say System ''Previous conversation covered: savings, loans'',
        say User ''ok'', say Assistant ''bye'']
   \<and> summarizeHistory [say System ''Previous conversation covered: loans, savings'',
                       say User ''ok'', say Assistant ''bye'']
     \<noteq> [say System ''Previous conversation covered: loans, savings'',
         say User ''ok'', say Assistant ''bye'']"
  by code_simp

text \<open>
  The summary of one turn lists its topics in the order of the keyword table, and the
  summary text of such a list mentions exactly the topics it lists: summarizing the
  summary of one turn gives the same text.
\<close>

lemma extractTopics_single:
  "extractTopics [x] =
     topicsFor (mentions (exchangeText x) [''savings'', ''save'', ''interest''])
               (mentions (exchangeText x) [''credit'', ''score'', ''report''])
               (mentions (exchangeText x) [''invest'', ''portfolio'', ''stocks''])
               (mentions (exchangeText x) [''budget'', ''expenses'', ''spending''])
               (mentions (exchangeText x) [''loan'', ''mortgage'', ''debt''])"
  by (simp add: extractTopics_def exchangeTopics_def bankingKeywords_def addTopic_def
      topicsFor_def)

lemma summary_topics_fixed:
  "\<forall>b1 b2 b3 b4 b5.
     extractTopics [\<lparr>role = System,
                     content = Some (''Previous conversation covered: ''
                                      @ join '', '' (topicsFor b1 b2 b3 b4 b5))\<rparr>]
       = topicsFor b1 b2 b3 b4 b5"
  by code_simp

lemma summaryText_single_fixed:
  "summaryText [\<lparr>role = System, content = Some (summaryText [x])\<rparr>] = summaryText [x]"
  using summary_topics_fixed
  by (simp add: summaryText_def extractTopics_single[of x])

lemma summarizeHistory_three:
  "summarizeHistory [a, b, c] = [\<lparr>role = System, content = Some (summaryText [a])\<rparr>, b, c]"
  by (simp add: summarizeHistory_def)

lemma summarizeHistory_twice_upto_three:
  assumes "length h \<le> 3"
  shows "summarizeHistory (summarizeHistory h) = summarizeHistory h"
proof (cases "length h \<le> 2")
  case True
  then show ?thesis by (simp add: summarizeHistory_def)
next
  case False
  with assms have "length h = 3" by simp
  then obtain a b c where h: "h = [a, b, c]"
    by (auto simp: length_Suc_conv numeral_3_eq_3)
  show ?thesis
    unfolding h summarizeHistory_three by (simp only: summaryText_single_fixed)
qed

text \<open>
  C3, amended. A sequence of at most two turns (the keep-recent count K) is returned
  unchanged; and on every sequence of at most three turns (K + 1) applying the
  summarizer twice equals applying it once.
\<close>

theorem summarizeHistory_unchanged_and_idempotent:
  "(length h \<le> 2 \<longrightarrow> summarizeHistory h = h)
   \<and> (length h \<le> 3 \<longrightarrow> summarizeHistory (summarizeHistory h) = summarizeHistory h)"
  using summarizeHistory_twice_upto_three[of h] by (simp add: summarizeHistory_def)

theorem summarizeHistory_unchanged_and_idempotent_witness:
  "length [say User ''ok'', say Assistant ''bye''] \<le> 2
   \<and> summarizeHistory [say User ''ok'', say Assistant ''bye'']
       = [say User ''ok'', say Assistant ''bye'']
   \<and> length [say System ''Previous conversation covered: loans, savings'',
              say User ''ok'', say Assistant ''bye''] \<le> 3
   \<and> summarizeHistory (summarizeHistory
         [say System ''Previous conversation covered: loans, savings'',
          say User ''ok'', say Assistant ''bye''])
       = summarizeHistory [say System ''Previous conversation covered: loans, savings'',
                           say User ''ok'', say Assistant ''bye'']"
  using summarizeHistory_unchanged_and_idempotent[of "[say User ''ok'', say Assistant ''bye'']"]
    summarizeHistory_unchanged_and_idempotent
      [of "[say System ''Previous conversation covered: loans, savings'',
            say User ''ok'', say Assistant ''bye'']"]
  by simp

text \<open>
  C9, as stated, fails: \<open>summarizeHistory\<close> already summarizes three turns, far below
  twenty; and \<open>summarizeConversation\<close>, which does wait for more than twenty turns, keeps
  the last ten, not the last two.
\<close>

theorem summarizeHistory_trigger_is_two:
  "length [say User ''How do I save?'', say Assistant ''Spend less'', say User ''thanks''] \<le> 20
   \<and> summarizeHistory [say User ''How do I save?'', say Assistant ''Spend less'',
                       say User ''thanks'']
     = [say System ''Previous conversation covered: savings'', say Assistant ''Spend less'',
        say User ''thanks'']
   \<and> length (replicate 21 (say User ''hello'')) = 21
   \<and> summarizeConversation plainHistory (replicate 21 (say User ''hello''))
     = say System
         ''Previous conversation summary: hellohellohellohellohellohellohellohellohellohellohello''
       # replicate 10 (say User ''hello'')"
  by code_simp

text \<open>
  C9, amended. \<open>summarizeHistory\<close> returns a sequence of at most two turns unchanged;
  a longer one becomes one system turn followed by the last two turns in their order.
  The text of the system turn is built from the topics of the older turns: each topic
  once, a topic of the table being listed exactly when one of its keywords occurs in the
  lower-cased content of an older turn, and every listed topic occurs in the text.
\<close>

theorem summarizeHistory_summary_and_recent:
  "(length h \<le> 2 \<longrightarrow> summarizeHistory h = h)
   \<and> (2 < length h \<longrightarrow>
        summarizeHistory h
          = [\<lparr>role = System, content = Some (summaryText (take (length h - 2) h))\<rparr>,
             h ! (length h - 2), h ! (length h - 1)])
   \<and> distinct (extractTopics older)
   \<and> (\<forall>(topic, keywords) \<in> set bankingKeywords.
        (topic \<in> set (extractTopics older))
          = (\<exists>x \<in> set older. \<exists>k \<in> set keywords. str_includes (exchangeText x) k))
   \<and> (\<forall>topic \<in> set (extractTopics older). str_includes (summaryText older) topic)
   \<and> set (extractTopics older) \<subseteq> fst ` set bankingKeywords"
proof -
  have a: "length h \<le> 2 \<longrightarrow> summarizeHistory h = h"
    by (simp add: summarizeHistory_def)
  have b: "2 < length h \<longrightarrow>
        summarizeHistory h
          = [\<lparr>role = System, content = Some (summaryText (take (length h - 2) h))\<rparr>,
             h ! (length h - 2), h ! (length h - 1)]"
    using last_two[of h] by (simp add: summarizeHistory_def Let_def)
  have c: "\<forall>(topic, keywords) \<in> set bankingKeywords.
        (topic \<in> set (extractTopics older))
          = (\<exists>x \<in> set older. \<exists>k \<in> set keywords. str_includes (exchangeText x) k)"
    using extractTopics_iff by blast
  have d: "\<forall>topic \<in> set (extractTopics older). str_includes (summaryText older) topic"
    by (simp add: str_includes_def summaryText_names)
  show ?thesis
    using a b c d distinct_extractTopics[of older] extractTopics_subset[of older] by blast
qed

theorem summarizeHistory_summary_and_recent_witness:
  "2 < length [say User ''I need a Loan'', say Assistant ''You could save more'',
               say User ''ok'', say Assistant ''bye'']
   \<and> summarizeHistory [say User ''I need a Loan'', say Assistant ''You could save more'',
                       say User ''ok'', say Assistant ''bye'']
      = [say System ''Previous conversation covered: loans, savings'',
         say User ''ok'', say Assistant ''bye'']
   \<and> (''loans'', [''loan'', ''mortgage'', ''debt'']) \<in> set bankingKeywords
   \<and> str_includes (exchangeText (say User ''I need a Loan'')) ''loan''
   \<and> ''loans'' \<in> set (extractTopics [say User ''I need a Loan'',
                                       say Assistant ''You could save more''])
   \<and> str_includes (summaryText [say User ''I need a Loan'',
                                 say Assistant ''You could save more'']) ''loans''"
proof -
  let ?h = "[say User ''I need a Loan'', say Assistant ''You could save more'',
             say User ''ok'', say Assistant ''bye'']"
  let ?older = "[say User ''I need a Loan'', say Assistant ''You could save more'']"
  have len: "2 < length ?h" by simp
  have tk: "take (length ?h - 2) ?h = ?older" by simp
  have st: "summaryText ?older = ''Previous conversation covered: loans, savings''"
    by code_simp
  have kw: "(''loans'', [''loan'', ''mortgage'', ''debt'']) \<in> set bankingKeywords"
    by (simp add: bankingKeywords_def)
  have inc: "str_includes (exchangeText (say User ''I need a Loan'')) ''loan''"
    by code_simp
  note t = summarizeHistory_summary_and_recent[of ?h ?older]
  from t len have s: "summarizeHistory ?h
          = [\<lparr>role = System, content = Some (summaryText (take (length ?h - 2) ?h))\<rparr>,
             ?h ! (length ?h - 2), ?h ! (length ?h - 1)]" by blast
  have s': "summarizeHistory ?h
      = [say System ''Previous conversation covered: loans, savings'',
         say User ''ok'', say Assistant ''bye'']"
    unfolding s tk st by (simp add: say_def)
  from t kw have "(''loans'' \<in> set (extractTopics ?older))
          = (\<exists>x \<in> set ?older. \<exists>k \<in> set [''loan'', ''mortgage'', ''debt''].
               str_includes (exchangeText x) k)"
    by blast
  with inc have mem: "''loans'' \<in> set (extractTopics ?older)" by simp
  with t have "str_includes (summaryText ?older) ''loans''" by blast
  with len s' kw inc mem show ?thesis by blast
qed

section \<open>Properties of OpenAIService\<close>

text \<open>
  C5. The message list that \<open>formatConversationHistory\<close> emits begins with the system
  turn carrying the system prompt and ends with a user turn carrying the new message
  unchanged, for every history; it is the list that \<open>generateResponse\<close> sends.
  (\<open>optimizePrompt\<close> returns a history only: it has no access to either turn.)
\<close>

theorem formatConversationHistory_first_and_last:
  "hd (formatConversationHistory s h m) = \<lparr>role = System, content = Some s\<rparr>
   \<and> last (formatConversationHistory s h m) = \<lparr>role = User, content = Some m\<rparr>
   \<and> 2 \<le> length (formatConversationHistory s h m)
   \<and> messages (buildRequest env m h) = formatConversationHistory buildBankingSystemPrompt h m"
  by (simp add: formatConversationHistory_def buildRequest_def Let_def)

text \<open>
  C4, as stated, fails: a connection failure and a 503 answer that carry the same message
  leave \<open>generateResponse\<close> as the same error, so the error does not tell the classes apart.
\<close>

theorem generateResponse_same_error_for_two_classes:
  "generateResponse (failingClient (NetworkFailure ''timeout'')) defaultEnv noMetrics ''hi'' []
     = Inl (Error ''OpenAI API Error: timeout'')
   \<and> generateResponse (failingClient (HttpStatus 503 ''timeout'')) defaultEnv noMetrics ''hi'' []
     = Inl (Error ''OpenAI API Error: timeout'')"
  by (simp add: generateResponse_def failingClient_def rethrow_def)

text \<open>
  C4, amended. Whenever the request to the completion endpoint fails, in whichever way,
  \<open>generateResponse\<close> fails with one generic error whose message is
  \<^verbatim>\<open>OpenAI API Error: \<close> followed by the message of the failure.
\<close>

theorem generateResponse_wraps_failure:
  "create (buildRequest env message h) = Inl failure \<Longrightarrow>
   generateResponse create env saveUsageMetrics message h
     = Inl (Error (''OpenAI API Error: '' @ failureMessage failure))"
  by (simp add: generateResponse_def rethrow_def)

theorem generateResponse_wraps_failure_witness:
  "failingClient (HttpStatus 500 ''boom'') (buildRequest defaultEnv ''hi'' [])
     = Inl (HttpStatus 500 ''boom'')
   \<and> generateResponse (failingClient (HttpStatus 500 ''boom'')) defaultEnv noMetrics ''hi'' []
     = Inl (Error ''OpenAI API Error: boom'')"
  using generateResponse_wraps_failure
    [of "failingClient (HttpStatus 500 ''boom'')" defaultEnv "''hi''" "[]"
        "HttpStatus 500 ''boom''" noMetrics]
  by (simp add: failingClient_def)

section \<open>Properties of the cache keys\<close>

lemma of_char_toLowerChar:
  "(of_char (toLowerChar c) :: nat) =
     (let n = of_char c in
      if (65 \<le> n \<and> n \<le> 90) \<or> (192 \<le> n \<and> n \<le> 222 \<and> n \<noteq> 215) then n + 32 else n)"
  by (auto simp: toLowerChar_def Let_def)

lemma kept_toLowerChar:
  "(isWordChar (toLowerChar c) \<or> isSpaceChar (toLowerChar c)) = (isWordChar c \<or> isSpaceChar c)"
  by (auto simp: isWordChar_def isSpaceChar_def of_char_toLowerChar Let_def)

lemma strip_lower_Cons:
  "stripNonWord (toLowerCase (c # cs)) =
     (if isPunctuation c then stripNonWord (toLowerCase cs)
      else toLowerChar c # stripNonWord (toLowerCase cs))"
  using kept_toLowerChar[of c]
  by (simp add: stripNonWord_def toLowerCase_def isPunctuation_def)

lemma strip_lower_Nil: "stripNonWord (toLowerCase []) = []"
  by (simp add: stripNonWord_def toLowerCase_def)

lemma differOnly_strip_lower:
  "differOnlyInCaseAndPunctuation a b \<Longrightarrow>
   stripNonWord (toLowerCase a) = stripNonWord (toLowerCase b)"
proof (induction a b rule: differOnlyInCaseAndPunctuation.induct)
  case 1
  then show ?case by simp
next
  case (2 c cs)
  then show ?case by (simp add: strip_lower_Cons strip_lower_Nil)
next
  case (3 d ds)
  then show ?case by (simp add: strip_lower_Cons strip_lower_Nil)
next
  case (4 c cs d ds)
  then show ?case
    by (simp only: strip_lower_Cons differOnlyInCaseAndPunctuation.simps split: if_splits) auto
qed

lemma redis_get_trackCommonQuestion:
  "redis_get (redis (trackCommonQuestion this message)) k = redis_get (redis this) k"
  by (auto simp: trackCommonQuestion_def redis_expire_def redis_get_def Let_def
           split: option.splits sum.splits prod.splits)

lemma cacheResponse_then_get:
  assumes up: "outage (redis this) = None" and s: "stringify response \<noteq> []"
    and n: "normalizeMessage m2 = normalizeMessage m1"
  shows "\<exists>this'. cacheResponse this stringify m1 response ttl = Inr this'
            \<and> CacheStrategy_getCachedResponse this' similar parse m2
               = (case parse (stringify response) of
                    Inl e \<Rightarrow> Inl e | Inr v \<Rightarrow> Inr (Some (v, exact_cache)))"
proof -
  let ?k = "''exact:'' @ normalizeMessage m1"
  let ?r = "(redis this)\<lparr>entries := (entries (redis this))(?k \<mapsto> (ttl, stringify response))\<rparr>"
  let ?this' = "trackCommonQuestion (this\<lparr>redis := ?r\<rparr>) (normalizeMessage m1)"
  have c: "cacheResponse this stringify m1 response ttl = Inr ?this'"
    using up by (simp add: cacheResponse_def redis_setex_def Let_def)
  have g: "redis_get (redis ?this') ?k = Inr (Some (stringify response))"
    unfolding redis_get_trackCommonQuestion using up by (simp add: redis_get_def)
  have "CacheStrategy_getCachedResponse ?this' similar parse m2
               = (case parse (stringify response) of
                    Inl e \<Rightarrow> Inl e | Inr v \<Rightarrow> Inr (Some (v, exact_cache)))"
    using s by (simp add: CacheStrategy_getCachedResponse_def n g del: append.simps)
  with c show ?thesis by blast
qed

lemma setCachedResponse_then_get:
  assumes up: "outage r = None" and s: "stringify response \<noteq> []"
    and n: "createCacheKey base64 m2 = createCacheKey base64 m1"
  shows "\<exists>r'. CacheService_setCachedResponse r base64 stringify m1 response ttl = Inr r'
            \<and> CacheService_getCachedResponse r' base64 parse setFromCache m2
               = (case parse (stringify response) of
                    Inl e \<Rightarrow> Inr None
                  | Inr v \<Rightarrow> (case setFromCache v of Inl e \<Rightarrow> Inr None | Inr v' \<Rightarrow> Inr (Some v')))"
  using up s
  by (simp add: CacheService_setCachedResponse_def CacheService_getCachedResponse_def n
      redis_setex_def redis_get_def Let_def)

text \<open>
  C6. Two messages that differ only in letter case and in punctuation have the same
  normalized message and the same cache key; so a response cached for the first is
  found for the second: the lookup returns what the parser makes of the stored text,
  from the exact-match entry.
\<close>

theorem normalized_keys_equal:
  assumes "differOnlyInCaseAndPunctuation m1 m2"
  shows "normalizeMessage m1 = normalizeMessage m2
   \<and> createCacheKey base64 m1 = createCacheKey base64 m2
   \<and> (outage (redis this) = None \<and> stringify response \<noteq> [] \<longrightarrow>
        (\<exists>this'. cacheResponse this stringify m1 response ttl = Inr this'
            \<and> CacheStrategy_getCachedResponse this' findSimilarQuestion parse m2
               = (case parse (stringify response) of
                    Inl e \<Rightarrow> Inl e | Inr v \<Rightarrow> Inr (Some (v, exact_cache)))))"
proof -
  have e: "stripNonWord (toLowerCase m1) = stripNonWord (toLowerCase m2)"
    using assms by (rule differOnly_strip_lower)
  then have n: "normalizeMessage m1 = normalizeMessage m2"
    by (simp add: normalizeMessage_def)
  from e have k: "createCacheKey base64 m1 = createCacheKey base64 m2"
    by (simp add: createCacheKey_def)
  from n k
    cacheResponse_then_get[of this stringify response m2 m1 ttl findSimilarQuestion parse]
  show ?thesis by simp
qed

theorem normalized_keys_equal_witness:
  "differOnlyInCaseAndPunctuation ''What's my Savings rate?'' ''whats my savings rate''
   \<and> normalizeMessage ''What's my Savings rate?'' = ''whats my savings rate''
   \<and> normalizeMessage ''whats my savings rate'' = ''whats my savings rate''
   \<and> createCacheKey stringifyText ''What's my Savings rate?''
       = createCacheKey stringifyText ''whats my savings rate''
   \<and> outage (redis emptyCache) = None
   \<and> (\<exists>this'. cacheResponse emptyCache stringifyText ''What's my Savings rate?''
                 ''2.5 percent'' 86400 = Inr this'
         \<and> CacheStrategy_getCachedResponse this' noSimilar parseText ''whats my savings rate''
             = Inr (Some (''2.5 percent'', exact_cache)))"
proof -
  have d: "differOnlyInCaseAndPunctuation ''What's my Savings rate?'' ''whats my savings rate''"
    by code_simp
  have n1: "normalizeMessage ''What's my Savings rate?'' = ''whats my savings rate''"
    by code_simp
  have up: "outage (redis emptyCache) = None"
    by (simp add: emptyCache_def)
  have s: "stringifyText ''2.5 percent'' \<noteq> []"
    by (simp add: stringifyText_def)
  note t = normalized_keys_equal[OF d, of stringifyText emptyCache stringifyText
      "''2.5 percent''" 86400 noSimilar parseText]
  from t have n2: "normalizeMessage ''whats my savings rate'' = ''whats my savings rate''"
    using n1 by simp
  from t up s have hit:
    "\<exists>this'. cacheResponse emptyCache stringifyText ''What's my Savings rate?''
                 ''2.5 percent'' 86400 = Inr this'
         \<and> CacheStrategy_getCachedResponse this' noSimilar parseText ''whats my savings rate''
             = Inr (Some (''2.5 percent'', exact_cache))"
    by (simp add: parseText_def stringifyText_def)
  from t d n1 n2 up hit show ?thesis by blast
qed

section \<open>Properties of the cache lookups\<close>

text \<open>\<open>CacheService.getCachedResponse\<close> catches everything: it always returns.\<close>

lemma CacheService_getCachedResponse_returns:
  "\<exists>res. CacheService_getCachedResponse r b p s m = Inr res"
  by (simp add: CacheService_getCachedResponse_def Let_def split: sum.splits option.splits)

lemma CacheService_getCachedResponse_outage:
  "outage r = Some e \<Longrightarrow> CacheService_getCachedResponse r b p s m = Inr None"
  by (simp add: CacheService_getCachedResponse_def Let_def redis_get_def)

text \<open>
  C7. \<open>CacheStrategy.getCachedResponse\<close> has no handler: while the store rejects its
  commands with \<open>e\<close>, the lookup fails with \<open>e\<close> instead of returning "absent".
\<close>

theorem CacheStrategy_getCachedResponse_propagates:
  "CacheStrategy_getCachedResponse
     \<lparr>redis = \<lparr>entries = es, outage = Some e\<rparr>, commonQuestions = cq\<rparr>
     findSimilarQuestion parse message = Inl e"
  by (simp add: CacheStrategy_getCachedResponse_def Let_def redis_get_def)

section \<open>Properties of CostTracker\<close>

lemma checkBudgetAlerts_dailyUsage: "dailyUsage (checkBudgetAlerts t) = dailyUsage t"
  by (simp add: checkBudgetAlerts_def sendAlert_def)

lemma checkBudgetAlerts_budgetLimits: "budgetLimits (checkBudgetAlerts t) = budgetLimits t"
  by (simp add: checkBudgetAlerts_def sendAlert_def)

lemma dailyPercentageAtLeast_cong:
  assumes "dailyUsage a = dailyUsage b" and "budgetLimits a = budgetLimits b"
  shows "dailyPercentageAtLeast a n = dailyPercentageAtLeast b n"
  unfolding dailyPercentageAtLeast_def assms by (rule refl)

lemma emitted_cong:
  "dailyUsage a = dailyUsage b \<Longrightarrow> budgetLimits a = budgetLimits b \<Longrightarrow> emitted a = emitted b"
  by (simp add: emitted_def dailyPercentageAtLeast_cong[of a b])

lemma checkBudgetAlerts_alerts: "alerts (checkBudgetAlerts t) = alerts t @ emitted t"
  by (simp add: checkBudgetAlerts_def sendAlert_def emitted_def)

lemma emitted_at_most_one: "length (emitted t) \<le> 1"
  by (simp add: emitted_def)

lemma trackUsage_alerts:
  "alerts (snd (trackUsage this u m)) = alerts this @ emitted (snd (trackUsage this u m))"
proof -
  let ?t = "this\<lparr>dailyUsage := (dailyUsage this)
                    \<lparr>totalTokens := totalTokens (dailyUsage this) + total_tokens u,
                     totalCost := jsadd (totalCost (dailyUsage this)) (calculateCost u m),
                     requestCount := requestCount (dailyUsage this) + 1\<rparr>\<rparr>"
  have s: "snd (trackUsage this u m) = checkBudgetAlerts ?t"
    by (simp add: trackUsage_def Let_def)
  have "emitted (checkBudgetAlerts ?t) = emitted ?t"
    by (rule emitted_cong)
       (simp_all only: checkBudgetAlerts_dailyUsage checkBudgetAlerts_budgetLimits)
  then show ?thesis
    by (simp add: s checkBudgetAlerts_alerts)
qed

lemma trackAll_alerts:
  "\<exists>new. alerts (trackAll this calls) = alerts this @ new \<and> length new \<le> length calls"
proof (induction calls arbitrary: this)
  case Nil
  then show ?case by simp
next
  case (Cons call calls)
  obtain u m where call: "call = (u, m)" by (cases call)
  let ?t = "snd (trackUsage this u m)"
  from Cons.IH[of ?t] obtain new where
    n: "alerts (trackAll ?t calls) = alerts ?t @ new" "length new \<le> length calls" by blast
  have "alerts (trackAll this (call # calls)) = alerts this @ (emitted ?t @ new)"
    using n(1) trackUsage_alerts[of this u m] by (simp add: call)
  moreover have "length (emitted ?t @ new) \<le> length (call # calls)"
    using n(2) emitted_at_most_one[of ?t] by simp
  ultimately show ?case by blast
qed

lemma jsadd_zero: "jsadd (Num 0) c = c"
  by (cases c) simp_all

lemma calculateCost_gpt35:
  "calculateCost u ''gpt-3.5-turbo''
     = Num (of_nat (prompt_tokens u) * 0.0005 / 1000 + of_nat (completion_tokens u) * 0.0015 / 1000)"
  by (simp add: calculateCost_def pricingProperty_def pricing_def costWith_def)

lemma calculateCost_gpt4:
  "calculateCost u ''gpt-4''
     = Num (of_nat (prompt_tokens u) * 0.03 / 1000 + of_nat (completion_tokens u) * 0.06 / 1000)"
  by (simp add: calculateCost_def pricingProperty_def pricing_def costWith_def)

lemma trackUsage_cost: "fst (trackUsage this u m) = calculateCost u m"
  by (simp add: trackUsage_def Let_def)

lemma trackUsage_totalCost:
  "totalCost (dailyUsage (snd (trackUsage this u m)))
     = jsadd (totalCost (dailyUsage this)) (calculateCost u m)"
  by (simp add: trackUsage_def Let_def checkBudgetAlerts_dailyUsage)

text \<open>
  C2, as stated, fails: with the default daily budget of 50, a first call that costs 30
  (60 percent) emits the 50 percent alert, and a second call that adds nothing emits the
  same alert again.
\<close>

theorem checkBudgetAlerts_repeats_alert:
  "map level (alerts (trackAll (newCostTracker ''Tue Nov 03 2026'' None None)
      [(\<lparr>prompt_tokens = 1000000, completion_tokens = 0, total_tokens = 1000000\<rparr>, ''gpt-4''),
       (\<lparr>prompt_tokens = 0, completion_tokens = 0, total_tokens = 0\<rparr>, ''gpt-4'')]))
     = [INFO, INFO]"
  by (simp add: newCostTracker_def trackUsage_def calculateCost_gpt4 checkBudgetAlerts_def
      dailyPercentageAtLeast_def sendAlert_def envLimit_def Let_def)

text \<open>
  C2, amended. Each call of \<open>trackUsage\<close> emits at most one alert, the one of the highest
  band (90, 75 or 50 percent of the daily budget) that the running total has reached after
  the call, and none below 50 percent; so a sequence of calls emits at most as many alerts
  as it has calls. Nothing remembers that a band has alerted before.
\<close>

theorem trackUsage_at_most_one_alert_per_call:
  "alerts (snd (trackUsage this u m)) = alerts this @ emitted (snd (trackUsage this u m))
   \<and> length (emitted (snd (trackUsage this u m))) \<le> 1
   \<and> (\<exists>new. alerts (trackAll this calls) = alerts this @ new \<and> length new \<le> length calls)"
  using trackUsage_alerts emitted_at_most_one trackAll_alerts by blast

lemma trackUsage_adds:
  "totalCost (dailyUsage this) = Num t \<Longrightarrow> calculateCost u m = Num c \<Longrightarrow>
   totalCost (dailyUsage (snd (trackUsage this u m))) = Num (t + c)"
  by (simp add: trackUsage_totalCost)

lemma trackUsage_twice:
  "calculateCost u1 m1 = Num a \<Longrightarrow> calculateCost u2 m2 = Num b \<Longrightarrow>
   totalCost (dailyUsage (snd (trackUsage
         (snd (trackUsage (newCostTracker today dl ml) u1 m1)) u2 m2))) = Num (a + b)"
  by (simp add: trackUsage_totalCost newCostTracker_def)

text \<open>
  C8. For the two models of the pricing table the cost is
  prompt tokens times the input rate over 1000 plus completion tokens times the output
  rate over 1000; \<open>trackUsage\<close> returns that cost and adds it to the running daily total:
  a total \<open>t\<close> and a cost \<open>c\<close> leave the total \<open>t + c\<close>, and on a new tracker two recordings
  of costs \<open>a\<close> and \<open>b\<close> leave \<open>a + b\<close>, for either model the sum of the two cost formulas.
\<close>

theorem calculateCost_additive:
  "calculateCost u ''gpt-3.5-turbo''
     = Num (of_nat (prompt_tokens u) * 0.0005 / 1000 + of_nat (completion_tokens u) * 0.0015 / 1000)
   \<and> calculateCost u ''gpt-4''
     = Num (of_nat (prompt_tokens u) * 0.03 / 1000 + of_nat (completion_tokens u) * 0.06 / 1000)
   \<and> fst (trackUsage this u m) = calculateCost u m
   \<and> totalCost (dailyUsage (snd (trackUsage this u m)))
     = jsadd (totalCost (dailyUsage this)) (calculateCost u m)
   \<and> totalCost (dailyUsage (snd (trackUsage
         (snd (trackUsage (newCostTracker today dl ml) u1 m1)) u2 m2)))
     = jsadd (calculateCost u1 m1) (calculateCost u2 m2)
   \<and> (totalCost (dailyUsage this) = Num t \<and> calculateCost u m = Num c \<longrightarrow>
        totalCost (dailyUsage (snd (trackUsage this u m))) = Num (t + c))
   \<and> (calculateCost u1 m1 = Num a \<and> calculateCost u2 m2 = Num b \<longrightarrow>
        totalCost (dailyUsage (snd (trackUsage
           (snd (trackUsage (newCostTracker today dl ml) u1 m1)) u2 m2))) = Num (a + b))
   \<and> totalCost (dailyUsage (snd (trackUsage
         (snd (trackUsage (newCostTracker today dl ml) u1 ''gpt-3.5-turbo'')) u2 ''gpt-3.5-turbo'')))
     = Num ((of_nat (prompt_tokens u1) * 0.0005 / 1000 + of_nat (completion_tokens u1) * 0.0015 / 1000)
          + (of_nat (prompt_tokens u2) * 0.0005 / 1000 + of_nat (completion_tokens u2) * 0.0015 / 1000))
   \<and> totalCost (dailyUsage (snd (trackUsage
         (snd (trackUsage (newCostTracker today dl ml) u1 ''gpt-4'')) u2 ''gpt-4'')))
     = Num ((of_nat (prompt_tokens u1) * 0.03 / 1000 + of_nat (completion_tokens u1) * 0.06 / 1000)
          + (of_nat (prompt_tokens u2) * 0.03 / 1000 + of_nat (completion_tokens u2) * 0.06 / 1000))"
proof -
  have z: "totalCost (dailyUsage (newCostTracker today dl ml)) = Num 0"
    by (simp add: newCostTracker_def)
  then have two: "totalCost (dailyUsage (snd (trackUsage
         (snd (trackUsage (newCostTracker today dl ml) u1 m1)) u2 m2)))
     = jsadd (calculateCost u1 m1) (calculateCost u2 m2)"
    by (simp add: trackUsage_totalCost jsadd_zero)
  have g35: "totalCost (dailyUsage (snd (trackUsage
         (snd (trackUsage (newCostTracker today dl ml) u1 ''gpt-3.5-turbo'')) u2 ''gpt-3.5-turbo'')))
     = Num ((of_nat (prompt_tokens u1) * 0.0005 / 1000 + of_nat (completion_tokens u1) * 0.0015 / 1000)
          + (of_nat (prompt_tokens u2) * 0.0005 / 1000 + of_nat (completion_tokens u2) * 0.0015 / 1000))"
    by (rule trackUsage_twice[OF calculateCost_gpt35 calculateCost_gpt35])
  have g4: "totalCost (dailyUsage (snd (trackUsage
         (snd (trackUsage (newCostTracker today dl ml) u1 ''gpt-4'')) u2 ''gpt-4'')))
     = Num ((of_nat (prompt_tokens u1) * 0.03 / 1000 + of_nat (completion_tokens u1) * 0.06 / 1000)
          + (of_nat (prompt_tokens u2) * 0.03 / 1000 + of_nat (completion_tokens u2) * 0.06 / 1000))"
    by (rule trackUsage_twice[OF calculateCost_gpt4 calculateCost_gpt4])
  show ?thesis
    using calculateCost_gpt35[of u] calculateCost_gpt4[of u] trackUsage_cost[of this u m]
      trackUsage_totalCost[of this u m] two g35 g4
      trackUsage_adds[of this t u m c] trackUsage_twice[of u1 m1 a u2 m2 b today dl ml]
    by blast
qed

theorem calculateCost_additive_witness:
  "calculateCost (usageOf 1000 500) ''gpt-4'' = Num (3 / 50)
   \<and> calculateCost (usageOf 2000 1000) ''gpt-4'' = Num (3 / 25)
   \<and> totalCost (dailyUsage (newCostTracker ''Tue Nov 03 2026'' None None)) = Num 0
   \<and> totalCost (dailyUsage (snd (trackUsage (newCostTracker ''Tue Nov 03 2026'' None None)
         (usageOf 1000 500) ''gpt-4''))) = Num (3 / 50)
   \<and> totalCost (dailyUsage (snd (trackUsage
         (snd (trackUsage (newCostTracker ''Tue Nov 03 2026'' None None)
            (usageOf 1000 500) ''gpt-4'')) (usageOf 2000 1000) ''gpt-4''))) = Num (9 / 50)"
proof -
  have a: "calculateCost (usageOf 1000 500) ''gpt-4'' = Num (3 / 50)"
    by (simp add: calculateCost_gpt4 usageOf_def)
  have b: "calculateCost (usageOf 2000 1000) ''gpt-4'' = Num (3 / 25)"
    by (simp add: calculateCost_gpt4 usageOf_def)
  have z: "totalCost (dailyUsage (newCostTracker ''Tue Nov 03 2026'' None None)) = Num 0"
    by (simp add: newCostTracker_def)
  note t = calculateCost_additive[of "usageOf 1000 500" "newCostTracker ''Tue Nov 03 2026'' None None" "''gpt-4''"
      "''Tue Nov 03 2026''" None None "usageOf 1000 500" "''gpt-4''" "usageOf 2000 1000" "''gpt-4''"
      0 "3 / 50" "3 / 50" "3 / 25"]
  from t z a have one: "totalCost (dailyUsage (snd (trackUsage
      (newCostTracker ''Tue Nov 03 2026'' None None) (usageOf 1000 500) ''gpt-4''))) = Num (3 / 50)"
    by simp
  from t a b have two: "totalCost (dailyUsage (snd (trackUsage
         (snd (trackUsage (newCostTracker ''Tue Nov 03 2026'' None None)
            (usageOf 1000 500) ''gpt-4'')) (usageOf 2000 1000) ''gpt-4''))) = Num (9 / 50)"
    by simp
  from a b z one two show ?thesis by blast
qed

text \<open>A model that is no property of the pricing object at all is charged the default rates.\<close>

lemma calculateCost_unknown_model:
  "m \<notin> set (map fst pricing) \<Longrightarrow> m \<notin> set objectPrototypeProperties \<Longrightarrow>
   calculateCost u m
     = Num (of_nat (prompt_tokens u) * 0.0005 / 1000 + of_nat (completion_tokens u) * 0.0015 / 1000)"
  by (simp add: calculateCost_def pricingProperty_def pricing_def costWith_def)

text \<open>
  C10. The model \<^verbatim>\<open>constructor\<close> is not in the pricing table, yet \<^verbatim>\<open>pricing[model]\<close> finds
  the inherited property, the default is not taken, and the cost is \<^verbatim>\<open>NaN\<close>; recorded, it
  turns the running daily total into \<^verbatim>\<open>NaN\<close>.
\<close>

theorem calculateCost_inherited_property_NaN:
  "calculateCost u ''constructor'' = NaN
   \<and> totalCost (dailyUsage (snd (trackUsage this u ''constructor''))) = NaN"
proof -
  have c: "calculateCost u ''constructor'' = NaN"
    by (simp add: calculateCost_def pricingProperty_def pricing_def objectPrototypeProperties_def)
  have "jsadd x NaN = NaN" for x
    by (cases x) simp_all
  then show ?thesis
    by (simp add: trackUsage_totalCost c)
qed

end
